theory Spec2Isabelle
  imports Complex_Main "HOL-Library.Word"
begin

section \<open>The ledger module \<open>sui_drop::market\<close>\<close>

text \<open>
  The Move module is embedded function by function. Move's \<open>u64\<close> is a 64-bit word; its
  \<open>+\<close>, \<open>-\<close>, \<open>*\<close> and \<open>/\<close> do not wrap: the virtual machine aborts the transaction on
  overflow, underflow and division by zero, so arithmetic returns a result. A transaction is
  atomic: an entry function returns either the error that aborted it (and then nothing of it
  is committed) or its effects.
\<close>

type_synonym u8 = "8 word"
type_synonym u64 = "64 word"
type_synonym address = "256 word"

text \<open>
  An object identity is derived by the ledger from the digest of the creating transaction
  and the number of objects that transaction has created so far; the derivation (a hash) is
  kept as the pair itself.
\<close>

type_synonym ID = "nat \<times> nat"

text \<open>
  The ways a transaction fails: an \<open>abort\<close> of a module with a code (the \<open>assert!\<close> of the
  source), the arithmetic error of the virtual machine, and an input object that is not on
  the ledger.
\<close>

datatype tx_error = MoveAbort string u64 | ArithmeticError | ObjectNotFound

definition E_INSUFFICIENT_PAYMENT :: u64 where
  "E_INSUFFICIENT_PAYMENT = 0"

definition E_LISTING_NOT_ACTIVE :: u64 where
  "E_LISTING_NOT_ACTIVE = 1"

definition E_INVALID_AFFILIATE_PERCENTAGE :: u64 where
  "E_INVALID_AFFILIATE_PERCENTAGE = 2"

definition E_CANNOT_SELF_REFER :: u64 where
  "E_CANNOT_SELF_REFER = 3"

definition MAX_AFFILIATE_PERCENTAGE :: u64 where
  "MAX_AFFILIATE_PERCENTAGE = 1000"

definition BASIS_POINTS :: u64 where
  "BASIS_POINTS = 10000"

text \<open>\<open>abort_market c\<close> is a failed \<open>assert!(_, c)\<close> of this module.\<close>

definition abort_market :: "u64 \<Rightarrow> tx_error" where
  "abort_market c = MoveAbort ''market'' c"

definition checked_mul :: "u64 \<Rightarrow> u64 \<Rightarrow> tx_error + u64" where
  "checked_mul a b = (if unat a * unat b < 2 ^ 64 then Inr (a * b) else Inl ArithmeticError)"

definition checked_div :: "u64 \<Rightarrow> u64 \<Rightarrow> tx_error + u64" where
  "checked_div a b = (if b = 0 then Inl ArithmeticError else Inr (a div b))"

definition checked_sub :: "u64 \<Rightarrow> u64 \<Rightarrow> tx_error + u64" where
  "checked_sub a b = (if b \<le> a then Inr (a - b) else Inl ArithmeticError)"

text \<open>
  \<open>PurchaseEvent { listing_id, buyer, seller, price }\<close> and
  \<open>AffiliatePurchaseEvent { listing_id, buyer, seller, referrer, price, affiliate_fee,
  seller_amount }\<close>, the fields in the order of the source.
\<close>

datatype event =
    PurchaseEvent ID address address u64
  | AffiliatePurchaseEvent ID address address address u64 u64 u64

text \<open>Reading the field \<open>affiliate_fee\<close> of an event: only the second struct has it.\<close>

fun event_affiliate_fee :: "event \<Rightarrow> u64 option" where
  "event_affiliate_fee (PurchaseEvent _ _ _ _) = None"
| "event_affiliate_fee (AffiliatePurchaseEvent _ _ _ _ _ fee _) = Some fee"

record Listing =
  uid :: ID
  seller :: address
  price :: u64
  blob_id :: "u8 list"
  name :: "u8 list"
  description :: "u8 list"
  is_active :: bool
  affiliate_percentage :: u64

record TxContext =
  sender :: address
  tx_hash :: nat
  ids_created :: nat

text \<open>\<open>object::new(ctx)\<close>: a fresh identity, and the context counts it.\<close>

definition object_new :: "TxContext \<Rightarrow> ID \<times> TxContext" where
  "object_new ctx = ((tx_hash ctx, ids_created ctx), ctx\<lparr>ids_created := ids_created ctx + 1\<rparr>)"

text \<open>
  A \<open>Coin<SUI>\<close> is kept as its balance. \<open>coin::split(&mut c, amount, ctx)\<close> takes \<open>amount\<close>
  out of \<open>c\<close> into a new coin and aborts in \<open>sui::balance\<close> (\<open>ENotEnough = 2\<close>) when \<open>c\<close>
  holds less; the result is the coin left and the coin split off.
\<close>

type_synonym Coin = u64

definition coin_value :: "Coin \<Rightarrow> u64" where
  "coin_value c = c"

definition coin_split :: "Coin \<Rightarrow> u64 \<Rightarrow> tx_error + (Coin \<times> Coin)" where
  "coin_split c amount =
     (if amount \<le> c then Inr (c - amount, amount) else Inl (MoveAbort ''balance'' 2))"

text \<open>
  What a purchase does to the world: the coins moved by \<open>transfer::public_transfer\<close>, each
  with its recipient, and the events emitted, both in program order.
\<close>

record tx_effects =
  transfers :: "(Coin \<times> address) list"
  events :: "event list"

text \<open>The amount an address receives from a list of transfers.\<close>

fun received :: "address \<Rightarrow> (Coin \<times> address) list \<Rightarrow> nat" where
  "received a [] = 0"
| "received a ((c, r) # ts) = (if r = a then unat c else 0) + received a ts"

text \<open>
  \<open>create_listing_with_affiliate\<close>: the result is the listing handed to
  \<open>transfer::share_object\<close>, with the context after \<open>object::new\<close>.
\<close>

definition create_listing_with_affiliate ::
  "u64 \<Rightarrow> u8 list \<Rightarrow> u8 list \<Rightarrow> u8 list \<Rightarrow> u64 \<Rightarrow> TxContext \<Rightarrow> tx_error + (Listing \<times> TxContext)" where
  "create_listing_with_affiliate price' blob_id' name' description' affiliate_percentage' ctx =
     (if \<not> affiliate_percentage' \<le> MAX_AFFILIATE_PERCENTAGE
      then Inl (abort_market E_INVALID_AFFILIATE_PERCENTAGE)
      else
        let seller' = sender ctx;
            (new_id, ctx') = object_new ctx;
            listing = \<lparr>uid = new_id, seller = seller', price = price', blob_id = blob_id',
                       name = name', description = description', is_active = True,
                       affiliate_percentage = affiliate_percentage'\<rparr>
        in Inr (listing, ctx'))"

definition create_listing ::
  "u64 \<Rightarrow> u8 list \<Rightarrow> u8 list \<Rightarrow> u8 list \<Rightarrow> TxContext \<Rightarrow> tx_error + (Listing \<times> TxContext)" where
  "create_listing price' blob_id' name' description' ctx =
     create_listing_with_affiliate price' blob_id' name' description' 0 ctx"

definition purchase :: "Listing \<Rightarrow> Coin \<Rightarrow> TxContext \<Rightarrow> tx_error + tx_effects" where
  "purchase listing payment ctx =
     (if \<not> is_active listing then Inl (abort_market E_LISTING_NOT_ACTIVE)
      else
        let payment_value = coin_value payment in
        if \<not> price listing \<le> payment_value then Inl (abort_market E_INSUFFICIENT_PAYMENT)
        else
          let buyer = sender ctx in
          Inr \<lparr>transfers = [(payment, seller listing)],
               events = [PurchaseEvent (uid listing) buyer (seller listing) (price listing)]\<rparr>)"

text \<open>
  The fee of \<open>purchase_with_referral\<close>:
  \<open>if (affiliate_percentage > 0) (price * affiliate_percentage) / BASIS_POINTS else 0\<close>.
\<close>

definition referral_fee :: "Listing \<Rightarrow> tx_error + u64" where
  "referral_fee listing =
     (if 0 < affiliate_percentage listing
      then (case checked_mul (price listing) (affiliate_percentage listing) of
              Inl e \<Rightarrow> Inl e
            | Inr product \<Rightarrow> checked_div product BASIS_POINTS)
      else Inr 0)"

text \<open>
  The \<open>if (affiliate_fee > 0)\<close> block: the payment left for the seller and the transfers
  made so far.
\<close>

definition split_for_affiliate ::
  "Coin \<Rightarrow> u64 \<Rightarrow> address \<Rightarrow> tx_error + (Coin \<times> (Coin \<times> address) list)" where
  "split_for_affiliate payment affiliate_fee referrer =
     (if 0 < affiliate_fee
      then (case coin_split payment affiliate_fee of
              Inl e \<Rightarrow> Inl e
            | Inr (payment', affiliate_coin) \<Rightarrow> Inr (payment', [(affiliate_coin, referrer)]))
      else Inr (payment, []))"

definition purchase_with_referral ::
  "Listing \<Rightarrow> Coin \<Rightarrow> address \<Rightarrow> TxContext \<Rightarrow> tx_error + tx_effects" where
  "purchase_with_referral listing payment referrer ctx =
     (if \<not> is_active listing then Inl (abort_market E_LISTING_NOT_ACTIVE)
      else
        let payment_value = coin_value payment in
        if \<not> price listing \<le> payment_value then Inl (abort_market E_INSUFFICIENT_PAYMENT)
        else
          let buyer = sender ctx in
          if \<not> referrer \<noteq> buyer then Inl (abort_market E_CANNOT_SELF_REFER)
          else if \<not> referrer \<noteq> seller listing then Inl (abort_market E_CANNOT_SELF_REFER)
          else
            (case referral_fee listing of
               Inl e \<Rightarrow> Inl e
             | Inr affiliate_fee \<Rightarrow>
                 (case checked_sub (price listing) affiliate_fee of
                    Inl e \<Rightarrow> Inl e
                  | Inr seller_amount \<Rightarrow>
                      (case split_for_affiliate payment affiliate_fee referrer of
                         Inl e \<Rightarrow> Inl e
                       | Inr (payment', sent) \<Rightarrow>
                           Inr \<lparr>transfers = sent @ [(payment', seller listing)],
                                events = [AffiliatePurchaseEvent (uid listing) buyer
                                            (seller listing) referrer (price listing)
                                            affiliate_fee seller_amount]\<rparr>))))"

definition deactivate_listing :: "Listing \<Rightarrow> TxContext \<Rightarrow> tx_error + Listing" where
  "deactivate_listing listing ctx =
     (if \<not> sender ctx = seller listing then Inl (abort_market 1)
      else Inr (listing\<lparr>is_active := False\<rparr>))"

definition reactivate_listing :: "Listing \<Rightarrow> TxContext \<Rightarrow> tx_error + Listing" where
  "reactivate_listing listing ctx =
     (if \<not> sender ctx = seller listing then Inl (abort_market 1)
      else Inr (listing\<lparr>is_active := True\<rparr>))"

definition update_affiliate_percentage :: "Listing \<Rightarrow> u64 \<Rightarrow> TxContext \<Rightarrow> tx_error + Listing" where
  "update_affiliate_percentage listing new_percentage ctx =
     (if \<not> sender ctx = seller listing then Inl (abort_market 1)
      else if \<not> new_percentage \<le> MAX_AFFILIATE_PERCENTAGE
      then Inl (abort_market E_INVALID_AFFILIATE_PERCENTAGE)
      else Inr (listing\<lparr>affiliate_percentage := new_percentage\<rparr>))"

definition calculate_affiliate_fee :: "Listing \<Rightarrow> tx_error + u64" where
  "calculate_affiliate_fee listing =
     (case checked_mul (price listing) (affiliate_percentage listing) of
        Inl e \<Rightarrow> Inl e
      | Inr product \<Rightarrow> checked_div product BASIS_POINTS)"

subsection \<open>The shared listings and the transactions on them\<close>

text \<open>
  The ledger holds the shared listings by identity. A transaction calls one entry function
  with a context of its own; one that fails commits nothing.
\<close>

type_synonym ledger = "ID \<Rightarrow> Listing option"

datatype entry_call =
    Create_listing u64 "u8 list" "u8 list" "u8 list"
  | Create_listing_with_affiliate u64 "u8 list" "u8 list" "u8 list" u64
  | Purchase ID Coin
  | Purchase_with_referral ID Coin address
  | Deactivate_listing ID
  | Reactivate_listing ID
  | Update_affiliate_percentage ID u64

definition share_object :: "ledger \<Rightarrow> tx_error + (Listing \<times> TxContext) \<Rightarrow> tx_error + ledger" where
  "share_object L r = (case r of Inl e \<Rightarrow> Inl e | Inr (listing, _) \<Rightarrow> Inr (L(uid listing \<mapsto> listing)))"

definition read_only :: "ledger \<Rightarrow> tx_error + tx_effects \<Rightarrow> tx_error + ledger" where
  "read_only L r = (case r of Inl e \<Rightarrow> Inl e | Inr _ \<Rightarrow> Inr L)"

definition write_back :: "ledger \<Rightarrow> ID \<Rightarrow> tx_error + Listing \<Rightarrow> tx_error + ledger" where
  "write_back L i r = (case r of Inl e \<Rightarrow> Inl e | Inr listing \<Rightarrow> Inr (L(i \<mapsto> listing)))"

definition on_listing :: "ledger \<Rightarrow> ID \<Rightarrow> (Listing \<Rightarrow> tx_error + ledger) \<Rightarrow> tx_error + ledger" where
  "on_listing L i f = (case L i of None \<Rightarrow> Inl ObjectNotFound | Some listing \<Rightarrow> f listing)"

fun execute :: "ledger \<Rightarrow> entry_call \<Rightarrow> TxContext \<Rightarrow> tx_error + ledger" where
  "execute L (Create_listing p b n d) ctx = share_object L (create_listing p b n d ctx)"
| "execute L (Create_listing_with_affiliate p b n d a) ctx =
     share_object L (create_listing_with_affiliate p b n d a ctx)"
| "execute L (Purchase i payment) ctx =
     on_listing L i (\<lambda>listing. read_only L (purchase listing payment ctx))"
| "execute L (Purchase_with_referral i payment referrer) ctx =
     on_listing L i (\<lambda>listing. read_only L (purchase_with_referral listing payment referrer ctx))"
| "execute L (Deactivate_listing i) ctx =
     on_listing L i (\<lambda>listing. write_back L i (deactivate_listing listing ctx))"
| "execute L (Reactivate_listing i) ctx =
     on_listing L i (\<lambda>listing. write_back L i (reactivate_listing listing ctx))"
| "execute L (Update_affiliate_percentage i a) ctx =
     on_listing L i (\<lambda>listing. write_back L i (update_affiliate_percentage listing a ctx))"

text \<open>The ledger after a transaction: the committed state, or the old one when it failed.\<close>

definition commit :: "ledger \<Rightarrow> entry_call \<times> TxContext \<Rightarrow> ledger" where
  "commit L tx = (case execute L (fst tx) (snd tx) of Inl _ \<Rightarrow> L | Inr L' \<Rightarrow> L')"

fun run :: "ledger \<Rightarrow> (entry_call \<times> TxContext) list \<Rightarrow> ledger" where
  "run L [] = L"
| "run L (tx # txs) = run (commit L tx) txs"

text \<open>The transfers a transaction commits: none when it aborted.\<close>

definition committed_transfers :: "tx_error + tx_effects \<Rightarrow> (Coin \<times> address) list" where
  "committed_transfers r = (case r of Inl _ \<Rightarrow> [] | Inr eff \<Rightarrow> transfers eff)"

subsection \<open>Sample values\<close>

text \<open>
  A transaction sent by address 1, one sent by address 2, and listings of seller 2: scenario B
  of the test plan (price 999, 333 basis points), the same listing deactivated, and a listing
  whose price times its rate does not fit 64 bits.
\<close>

abbreviation ctx0 :: TxContext where
  "ctx0 \<equiv> \<lparr>sender = 1, tx_hash = 7, ids_created = 0\<rparr>"

abbreviation seller_ctx :: TxContext where
  "seller_ctx \<equiv> \<lparr>sender = 2, tx_hash = 8, ids_created = 0\<rparr>"

abbreviation scenario_B :: Listing where
  "scenario_B \<equiv> \<lparr>uid = (0, 0), seller = 2, price = 999, blob_id = [1], name = [2],
     description = [3], is_active = True, affiliate_percentage = 333\<rparr>"

abbreviation inactive_listing :: Listing where
  "inactive_listing \<equiv> \<lparr>uid = (0, 0), seller = 2, price = 999, blob_id = [1], name = [2],
     description = [3], is_active = False, affiliate_percentage = 333\<rparr>"

abbreviation huge_listing :: Listing where
  "huge_listing \<equiv> \<lparr>uid = (0, 0), seller = 2, price = 20000000000000000, blob_id = [1],
     name = [2], description = [3], is_active = True, affiliate_percentage = 1000\<rparr>"

section \<open>The encryption envelope (\<open>lib/crypto-utils.ts\<close>)\<close>

text \<open>
  The content of an \<open>ArrayBuffer\<close>, a \<open>Uint8Array\<close> or a \<open>Blob\<close> is a list of bytes. The
  exceptions of the platform functions used are values of \<open>js_error\<close>.
\<close>

datatype js_error = RangeError | InvalidCharacterError | InvalidAccessError | DataError

subsection \<open>Framing\<close>

text \<open>
  \<open>target.set(source, offset)\<close> of a typed array writes \<open>source\<close> into \<open>target\<close> from index
  \<open>offset\<close> on and throws a \<open>RangeError\<close> when \<open>source\<close> does not fit.
\<close>

definition typed_array_set :: "u8 list \<Rightarrow> u8 list \<Rightarrow> nat \<Rightarrow> js_error + u8 list" where
  "typed_array_set target source offset =
     (if length target < offset + length source then Inl RangeError
      else Inr (take offset target @ source @ drop (offset + length source) target))"

text \<open>\<open>a.slice(start, end)\<close> and \<open>a.slice(start)\<close> for indices that are not negative.\<close>

definition slice :: "u8 list \<Rightarrow> nat \<Rightarrow> nat \<Rightarrow> u8 list" where
  "slice a start end' = take (end' - start) (drop start a)"

definition slice_from :: "u8 list \<Rightarrow> nat \<Rightarrow> u8 list" where
  "slice_from a start = drop start a"

definition createEncryptedPayload :: "u8 list \<Rightarrow> u8 list \<Rightarrow> js_error + u8 list" where
  "createEncryptedPayload encryptedBlob iv =
     (let encryptedBuffer = encryptedBlob;
          combined = replicate (length iv + length encryptedBuffer) 0
      in case typed_array_set combined iv 0 of
           Inl e \<Rightarrow> Inl e
         | Inr combined' \<Rightarrow> typed_array_set combined' encryptedBuffer (length iv))"

text \<open>The result is the pair of the fields \<open>iv\<close> and \<open>encryptedData\<close>.\<close>

definition parseEncryptedPayload :: "u8 list \<Rightarrow> u8 list \<times> u8 list" where
  "parseEncryptedPayload payload =
     (let payloadBytes = payload;
          iv = slice payloadBytes 0 12;
          encryptedData = slice_from payloadBytes 12
      in (iv, encryptedData))"

subsection \<open>Base64 of the platform: \<open>btoa\<close> and \<open>atob\<close>\<close>

text \<open>
  A binary string, the argument of \<open>btoa\<close> and the result of \<open>atob\<close>, is a string whose code
  units are at most 255; it is a \<open>string\<close> here, whose characters are bytes. \<open>btoa\<close> throws
  on a code unit above 255 only, which this type leaves out.
\<close>

definition b64_alphabet :: string where
  "b64_alphabet = ''ABCDEFGHIJKLMNOPQRSTUVWXYZabcdefghijklmnopqrstuvwxyz0123456789+/''"

definition b64_char :: "nat \<Rightarrow> char" where
  "b64_char i = b64_alphabet ! i"

fun index_of :: "char \<Rightarrow> string \<Rightarrow> nat option" where
  "index_of c [] = None"
| "index_of c (x # xs) = (if x = c then Some 0 else map_option Suc (index_of c xs))"

definition b64_index :: "char \<Rightarrow> nat option" where
  "b64_index c = index_of c b64_alphabet"

text \<open>Bytes to 6-bit groups, three bytes to four groups; a last group is filled with zero
  bits.\<close>

fun b64_sextets :: "nat list \<Rightarrow> nat list" where
  "b64_sextets (a # b # c # rest) =
     [a div 4, (a mod 4) * 16 + b div 16, (b mod 16) * 4 + c div 64, c mod 64] @ b64_sextets rest"
| "b64_sextets [a, b] = [a div 4, (a mod 4) * 16 + b div 16, (b mod 16) * 4]"
| "b64_sextets [a] = [a div 4, (a mod 4) * 16]"
| "b64_sextets [] = []"

definition btoa :: "string \<Rightarrow> string" where
  "btoa s = map b64_char (b64_sextets (map of_char s))
              @ replicate ((3 - length s mod 3) mod 3) (CHR ''='')"

text \<open>
  \<open>atob\<close> is the forgiving decoder: it removes ASCII whitespace, removes one or two
  \<open>=\<close> at the end when the length is a multiple of 4, fails when the length then leaves
  remainder 1 modulo 4 or a character is not of the alphabet, and decodes four groups to three
  bytes, dropping the bits left over at the end.
\<close>

definition ascii_whitespace :: "char \<Rightarrow> bool" where
  "ascii_whitespace c = (of_char c \<in> {9, 10, 12, 13, 32 :: nat})"

definition drop_padding :: "string \<Rightarrow> string" where
  "drop_padding s =
     (if length s mod 4 = 0
      then (case rev s of
              x # y # r \<Rightarrow> (if x = CHR ''='' then (if y = CHR ''='' then rev r else rev (y # r)) else s)
            | _ \<Rightarrow> s)
      else s)"

fun b64_bytes :: "nat list \<Rightarrow> nat list" where
  "b64_bytes (s1 # s2 # s3 # s4 # rest) =
     [s1 * 4 + s2 div 16, (s2 mod 16) * 16 + s3 div 4, (s3 mod 4) * 64 + s4] @ b64_bytes rest"
| "b64_bytes [s1, s2, s3] = [s1 * 4 + s2 div 16, (s2 mod 16) * 16 + s3 div 4]"
| "b64_bytes [s1, s2] = [s1 * 4 + s2 div 16]"
| "b64_bytes [s1] = []"
| "b64_bytes [] = []"

definition atob :: "string \<Rightarrow> js_error + string" where
  "atob s =
     (let data = filter (\<lambda>c. \<not> ascii_whitespace c) s;
          data' = drop_padding data
      in if length data' mod 4 = 1 then Inl InvalidCharacterError
         else (case those (map b64_index data') of
                 None \<Rightarrow> Inl InvalidCharacterError
               | Some groups \<Rightarrow> Inr (map char_of (b64_bytes groups))))"

subsection \<open>Keys\<close>

text \<open>
  A \<open>CryptoKey\<close> of AES-GCM: its raw bytes, whether it may be exported, and what it may be
  used for. \<open>generateEncryptionKey\<close> draws 256 random bits, here its argument.
\<close>

datatype key_usage = Encrypt | Decrypt

record CryptoKey =
  raw :: "u8 list"
  extractable :: bool
  usages :: "key_usage list"

definition generateEncryptionKey :: "u8 list \<Rightarrow> CryptoKey" where
  "generateEncryptionKey random = \<lparr>raw = random, extractable = True, usages = [Encrypt, Decrypt]\<rparr>"

text \<open>\<open>crypto.subtle.exportKey("raw", key)\<close> refuses a key that is not extractable, and
  \<open>crypto.subtle.importKey("raw", bytes, AES-GCM, extractable, usages)\<close> a key that is not of
  128, 192 or 256 bits.\<close>

definition exportKey_raw :: "CryptoKey \<Rightarrow> js_error + u8 list" where
  "exportKey_raw key = (if extractable key then Inr (raw key) else Inl InvalidAccessError)"

definition importKey_raw :: "u8 list \<Rightarrow> bool \<Rightarrow> key_usage list \<Rightarrow> js_error + CryptoKey" where
  "importKey_raw keyBytes ext us =
     (if length keyBytes \<in> {16, 24, 32}
      then Inr \<lparr>raw = keyBytes, extractable = ext, usages = us\<rparr>
      else Inl DataError)"

text \<open>\<open>String.fromCharCode(...bytes)\<close> and \<open>Uint8Array.from(s, c => c.charCodeAt(0))\<close>.\<close>

definition fromCharCode :: "u8 list \<Rightarrow> string" where
  "fromCharCode bytes = map (\<lambda>b. char_of (unat b)) bytes"

definition charCodes :: "string \<Rightarrow> u8 list" where
  "charCodes s = map (\<lambda>c. word_of_nat (of_char c)) s"

definition exportKeyToBase64 :: "CryptoKey \<Rightarrow> js_error + string" where
  "exportKeyToBase64 key =
     (case exportKey_raw key of
        Inl e \<Rightarrow> Inl e
      | Inr rawKey \<Rightarrow> (let keyBytes = rawKey in Inr (btoa (fromCharCode keyBytes))))"

definition importKeyFromBase64 :: "string \<Rightarrow> js_error + CryptoKey" where
  "importKeyFromBase64 base64Key =
     (case atob base64Key of
        Inl e \<Rightarrow> Inl e
      | Inr binary \<Rightarrow> (let keyBytes = charCodes binary in importKey_raw keyBytes False [Decrypt]))"

text \<open>
  The specification asks that the exported string be URL-safe "for embedding in a URL
  fragment". Following these words, a string is safe when each of its characters may stand
  as it is in the fragment of a URL: by RFC 3986 the letters, the digits, \<open>-._~\<close>, the
  sub-delimiters \<open>!$&()*+,;=\<close> and the apostrophe (character \<open>0x27\<close>), and \<open>:@/?\<close>.
\<close>

definition url_fragment_char :: "char \<Rightarrow> bool" where
  "url_fragment_char c =
     (c \<in> set ''ABCDEFGHIJKLMNOPQRSTUVWXYZabcdefghijklmnopqrstuvwxyz0123456789-._~!$&()*+,;=:@/?''
      \<or> c = CHR 0x27)"

definition url_fragment_safe :: "string \<Rightarrow> bool" where
  "url_fragment_safe s = list_all url_fragment_char s"

text \<open>A key of 32 bytes \<open>0xFF\<close> as generated and as imported, and the key of the bytes 0
  to 31.\<close>

abbreviation ff_key :: CryptoKey where
  "ff_key \<equiv> generateEncryptionKey (replicate 32 255)"

abbreviation imported_ff_key :: CryptoKey where
  "imported_ff_key \<equiv> \<lparr>raw = replicate 32 255, extractable = False, usages = [Decrypt]\<rparr>"

abbreviation counting_key :: CryptoKey where
  "counting_key \<equiv> generateEncryptionKey (map word_of_nat [0..<32])"

section \<open>The redeem page (\<open>handlePurchase\<close>)\<close>

text \<open>
  \<open>ListingInfo\<close>, the listing as the page holds it after fetching it: addresses and the
  price are strings, the commission a number in percent.
\<close>

record ListingInfo =
  info_id :: string
  info_seller :: string
  info_price :: string
  blobId :: string
  info_name :: string
  info_description :: string
  isActive :: bool
  affiliatePercentage :: real

text \<open>
  The page sets \<open>affiliatePercentage\<close> to
  \<open>affiliatePercentageField ? parseInt(affiliatePercentageField) / 100 : 0\<close>; the field is the
  listing's rate in basis points printed in decimal (a non-empty string, hence truthy) or is
  missing. The number is kept as a real: the claim uses its sign only, which the rounding of
  the division does not change.
\<close>

definition affiliatePercentage_of_field :: "nat option \<Rightarrow> real" where
  "affiliatePercentage_of_field field =
     (case field of None \<Rightarrow> 0 | Some basis_points \<Rightarrow> real basis_points / 100)"

text \<open>A value of type \<open>string | null\<close> in a condition: true unless null or empty.\<close>

definition truthy :: "string option \<Rightarrow> bool" where
  "truthy v = (case v of None \<Rightarrow> False | Some s \<Rightarrow> s \<noteq> [])"

text \<open>The state \<open>referrer\<close> after the page has read the query parameter \<open>ref\<close>:
  \<open>if (ref) setReferrer(ref)\<close> on the initial \<open>null\<close>.\<close>

definition parse_referrer :: "string option \<Rightarrow> string option" where
  "parse_referrer ref = (if truthy ref then ref else None)"

definition hasValidReferrer :: "string option \<Rightarrow> string \<Rightarrow> ListingInfo \<Rightarrow> bool" where
  "hasValidReferrer referrer address listing =
     (truthy referrer \<and> referrer \<noteq> Some address \<and> referrer \<noteq> Some (info_seller listing) \<and>
      0 < affiliatePercentage listing)"

text \<open>
  The transaction built: the call's target and its arguments. The payment coin is split off
  the gas coin for \<open>Number(listing.price)\<close> and is kept with the price string it comes from.
\<close>

datatype tx_arg =
    SharedObjectRef string nat bool
  | ObjectArg string
  | PaymentCoin string
  | Pure "string option"

record move_call =
  target :: string
  arguments :: "tx_arg list"

datatype purchase_outcome = NotStarted | PurchaseError string | Submitted move_call

text \<open>
  \<open>handlePurchase\<close>, with the package identity, the connected account's address (if any), the
  listing held (if any), the referrer, and what \<open>getObject\<close> gave: an exception with its
  message, or the object's data (if any) with its initial shared version (if any).
\<close>

definition listing_arg :: "ListingInfo \<Rightarrow> nat option \<Rightarrow> tx_arg" where
  "listing_arg listing initialSharedVersion =
     (case initialSharedVersion of
        None \<Rightarrow> ObjectArg (info_id listing)
      | Some v \<Rightarrow> (if v = 0 then ObjectArg (info_id listing)
                   else SharedObjectRef (info_id listing) v False))"

definition handlePurchase ::
  "string \<Rightarrow> string option \<Rightarrow> ListingInfo option \<Rightarrow> string option \<Rightarrow>
   string + (nat option) option \<Rightarrow> purchase_outcome" where
  "handlePurchase MARKET_PACKAGE_ID currentAccount listing' referrer listingObject =
     (case (currentAccount, listing') of
        (Some address, Some listing) \<Rightarrow>
          (case listingObject of
             Inl message \<Rightarrow> PurchaseError message
           | Inr None \<Rightarrow> PurchaseError ''Listing not found on chain''
           | Inr (Some initialSharedVersion) \<Rightarrow>
               (let paymentCoin = PaymentCoin (info_price listing) in
                if hasValidReferrer referrer address listing
                then Submitted
                  \<lparr>target = MARKET_PACKAGE_ID @ ''::market::purchase_with_referral'',
                   arguments = [listing_arg listing initialSharedVersion, paymentCoin,
                                Pure referrer]\<rparr>
                else Submitted
                  \<lparr>target = MARKET_PACKAGE_ID @ ''::market::purchase'',
                   arguments = [listing_arg listing initialSharedVersion, paymentCoin]\<rparr>))
      | _ \<Rightarrow> NotStarted)"

text \<open>A listing of seller \<open>0x2\<close> as the page holds it, with the commission still to be set.\<close>

abbreviation sample_info :: ListingInfo where
  "sample_info \<equiv> \<lparr>info_id = ''0xabc'', info_seller = ''0x2'', info_price = ''999'',
     blobId = ''blob'', info_name = ''n'', info_description = ''d'', isActive = True,
     affiliatePercentage = 0\<rparr>"

section \<open>Properties of the market module\<close>

subsection \<open>The referral split\<close>

lemma referral_fee_value:
  assumes "unat (price l) * unat (affiliate_percentage l) < 2 ^ 64"
  shows "\<exists>fee. referral_fee l = Inr fee \<and>
           unat fee = unat (price l) * unat (affiliate_percentage l) div 10000"
proof (cases "0 < affiliate_percentage l")
  case True
  have m: "unat (price l * affiliate_percentage l) = unat (price l) * unat (affiliate_percentage l)"
    using assms unat_mult_lem [of "price l" "affiliate_percentage l"] by simp
  have "unat (price l * affiliate_percentage l div BASIS_POINTS)
          = unat (price l) * unat (affiliate_percentage l) div 10000"
    by (simp add: unat_div m BASIS_POINTS_def)
  with True assms show ?thesis
    by (simp add: referral_fee_def checked_mul_def checked_div_def BASIS_POINTS_def)
next
  case False
  then have "affiliate_percentage l = 0"
    by (simp add: word_gt_0)
  then show ?thesis
    by (simp add: referral_fee_def)
qed

lemma calculate_affiliate_fee_value:
  assumes "unat (price l) * unat (affiliate_percentage l) < 2 ^ 64"
  shows "calculate_affiliate_fee l = referral_fee l"
proof (cases "0 < affiliate_percentage l")
  case True
  then show ?thesis by (simp add: calculate_affiliate_fee_def referral_fee_def)
next
  case False
  then have "affiliate_percentage l = 0"
    by (simp add: word_gt_0)
  then show ?thesis
    by (simp add: calculate_affiliate_fee_def referral_fee_def checked_mul_def checked_div_def
        BASIS_POINTS_def)
qed

lemma fee_le_price:
  assumes "unat fee = unat p * unat a div 10000" "unat a \<le> 10000"
  shows "fee \<le> (p::u64)"
proof -
  have "unat p * unat a \<le> unat p * 10000"
    using assms(2) by simp
  then have "unat p * unat a div 10000 \<le> unat p * 10000 div 10000"
    by (rule div_le_mono)
  then show ?thesis using assms(1) by (simp add: word_le_nat_alt)
qed

lemma max_bp_unat: "a \<le> MAX_AFFILIATE_PERCENTAGE \<Longrightarrow> unat a \<le> 10000"
  by (simp add: MAX_AFFILIATE_PERCENTAGE_def word_le_nat_alt)

text \<open>
  C1, as stated, fails: the product \<open>price * affiliate_percentage\<close> is computed in \<open>u64\<close>, and
  the virtual machine aborts the transaction when it does not fit. At price \<open>2 * 10^16\<close> and 1000
  basis points a call that passes the activation, payment and self-referral checks aborts with
  the arithmetic error, and nobody receives anything.
\<close>

theorem purchase_with_referral_overflow_counterexample:
  "is_active huge_listing \<and> price huge_listing \<le> coin_value 20000000000000000 \<and>
   (3::address) \<noteq> sender ctx0 \<and> 3 \<noteq> seller huge_listing \<and> 0 < price huge_listing \<and>
   affiliate_percentage huge_listing \<le> MAX_AFFILIATE_PERCENTAGE \<and>
   purchase_with_referral huge_listing 20000000000000000 3 ctx0 = Inl ArithmeticError \<and>
   committed_transfers (purchase_with_referral huge_listing 20000000000000000 3 ctx0) = []"
  by (simp add: purchase_with_referral_def referral_fee_def checked_mul_def coin_value_def
      MAX_AFFILIATE_PERCENTAGE_def committed_transfers_def)

text \<open>
  C1, amended: for every listing with \<open>price > 0\<close>, a rate of at most 1000 basis points and
  \<open>price * rate < 2^64\<close>, every \<open>purchase_with_referral\<close> that passes the activation, payment
  and self-referral checks succeeds; the referrer receives exactly
  \<open>affiliate_fee = floor (price * rate / 10000)\<close>, the seller receives the rest of the submitted
  payment, and the one event emitted carries \<open>affiliate_fee\<close> and a \<open>seller_amount\<close> with
  \<open>affiliate_fee + seller_amount = price\<close>. The view function \<open>calculate_affiliate_fee\<close>
  returns the same fee.
\<close>

theorem purchase_with_referral_split:
  assumes active: "is_active l"
    and paid: "price l \<le> coin_value payment"
    and not_buyer: "referrer \<noteq> sender ctx"
    and not_seller: "referrer \<noteq> seller l"
    and positive: "0 < price l"
    and range: "affiliate_percentage l \<le> MAX_AFFILIATE_PERCENTAGE"
    and fits: "unat (price l) * unat (affiliate_percentage l) < 2 ^ 64"
  shows "\<exists>fee seller_amount eff.
           purchase_with_referral l payment referrer ctx = Inr eff \<and>
           unat fee = unat (price l) * unat (affiliate_percentage l) div 10000 \<and>
           calculate_affiliate_fee l = Inr fee \<and>
           received referrer (transfers eff) = unat fee \<and>
           received (seller l) (transfers eff) = unat payment - unat fee \<and>
           events eff = [AffiliatePurchaseEvent (uid l) (sender ctx) (seller l) referrer
                           (price l) fee seller_amount] \<and>
           unat fee + unat seller_amount = unat (price l)"
proof -
  from referral_fee_value [OF fits] obtain fee where
    fee: "referral_fee l = Inr fee"
    and fee_val: "unat fee = unat (price l) * unat (affiliate_percentage l) div 10000"
    by blast
  have le: "fee \<le> price l"
    using fee_val max_bp_unat [OF range] by (rule fee_le_price)
  then have le_pay: "fee \<le> payment"
    using paid by (simp add: coin_value_def)
  have sum: "unat fee + unat (price l - fee) = unat (price l)"
    using le by (simp add: unat_sub word_le_nat_alt)
  have pay: "unat (payment - fee) = unat payment - unat fee"
    using le_pay by (simp add: unat_sub)
  define eff where "eff =
    \<lparr>transfers = (if 0 < fee then [(fee, referrer)] else []) @ [(payment - fee, seller l)],
     events = [AffiliatePurchaseEvent (uid l) (sender ctx) (seller l) referrer (price l) fee
                 (price l - fee)]\<rparr>"
  have result: "purchase_with_referral l payment referrer ctx = Inr eff"
    using active paid not_buyer not_seller le le_pay
    by (simp add: purchase_with_referral_def fee checked_sub_def split_for_affiliate_def
        coin_split_def eff_def word_gt_0)
  have to_referrer: "received referrer (transfers eff) = unat fee"
    using not_seller by (auto simp: eff_def word_gt_0)
  have to_seller: "received (seller l) (transfers eff) = unat payment - unat fee"
    using not_seller pay by (auto simp: eff_def word_gt_0)
  have emitted: "events eff = [AffiliatePurchaseEvent (uid l) (sender ctx) (seller l) referrer
                           (price l) fee (price l - fee)]"
    by (simp add: eff_def)
  have viewed: "calculate_affiliate_fee l = Inr fee"
    using calculate_affiliate_fee_value [OF fits] fee by simp
  from result fee_val viewed to_referrer to_seller emitted sum show ?thesis by blast
qed

text \<open>The amended C1 at scenario B, with 1005 units submitted by buyer 1 and referrer 3.\<close>

theorem purchase_with_referral_split_witness:
  "is_active scenario_B \<and> price scenario_B \<le> coin_value 1005 \<and> (3::address) \<noteq> sender ctx0 \<and>
   3 \<noteq> seller scenario_B \<and> 0 < price scenario_B \<and>
   affiliate_percentage scenario_B \<le> MAX_AFFILIATE_PERCENTAGE \<and>
   unat (price scenario_B) * unat (affiliate_percentage scenario_B) < 2 ^ 64 \<and>
   (\<exists>fee seller_amount eff.
      purchase_with_referral scenario_B 1005 3 ctx0 = Inr eff \<and>
      unat fee = unat (price scenario_B) * unat (affiliate_percentage scenario_B) div 10000 \<and>
      calculate_affiliate_fee scenario_B = Inr fee \<and>
      received 3 (transfers eff) = unat fee \<and>
      received (seller scenario_B) (transfers eff) = unat (1005::u64) - unat fee \<and>
      events eff = [AffiliatePurchaseEvent (uid scenario_B) (sender ctx0) (seller scenario_B) 3
                      (price scenario_B) fee seller_amount] \<and>
      unat fee + unat seller_amount = unat (price scenario_B))"
proof -
  have h1: "is_active scenario_B" by simp
  have h2: "price scenario_B \<le> coin_value 1005" by (simp add: coin_value_def)
  have h3: "(3::address) \<noteq> sender ctx0" by simp
  have h4: "(3::address) \<noteq> seller scenario_B" by simp
  have h5: "0 < price scenario_B" by simp
  have h6: "affiliate_percentage scenario_B \<le> MAX_AFFILIATE_PERCENTAGE"
    by (simp add: MAX_AFFILIATE_PERCENTAGE_def)
  have h7: "unat (price scenario_B) * unat (affiliate_percentage scenario_B) < 2 ^ 64" by simp
  note split = purchase_with_referral_split [OF h1 h2 h3 h4 h5 h6 h7]
  from h1 h2 h3 h4 h5 h6 h7 split show ?thesis by (intro conjI)
qed

text \<open>Scenario B computed: the fee is 33, the event's seller amount 966, and the seller is
  sent the 972 units left of the 1005 submitted.\<close>

lemma scenario_B_computed:
  "purchase_with_referral scenario_B 1005 3 ctx0 =
     Inr \<lparr>transfers = [(33, 3), (972, 2)],
          events = [AffiliatePurchaseEvent (0, 0) 1 2 3 999 33 966]\<rparr>"
  by (simp add: purchase_with_referral_def referral_fee_def checked_mul_def checked_div_def
      checked_sub_def split_for_affiliate_def coin_split_def coin_value_def BASIS_POINTS_def)

subsection \<open>The commission bound\<close>

lemma execute_keeps_range:
  assumes inv: "\<forall>i l. L i = Some l \<longrightarrow> affiliate_percentage l \<le> MAX_AFFILIATE_PERCENTAGE"
    and ex: "execute L c ctx = Inr L'"
  shows "\<forall>i l. L' i = Some l \<longrightarrow> affiliate_percentage l \<le> MAX_AFFILIATE_PERCENTAGE"
proof (cases c)
  case (Create_listing p b n d)
  with ex inv show ?thesis
    by (auto simp: share_object_def create_listing_def create_listing_with_affiliate_def
        object_new_def MAX_AFFILIATE_PERCENTAGE_def split: if_splits)
next
  case (Create_listing_with_affiliate p b n d a)
  with ex inv show ?thesis
    by (auto simp: share_object_def create_listing_with_affiliate_def object_new_def
        split: if_splits)
next
  case (Purchase i payment)
  with ex inv show ?thesis
    by (auto simp: on_listing_def read_only_def split: option.splits sum.splits)
next
  case (Purchase_with_referral i payment referrer)
  with ex inv show ?thesis
    by (auto simp: on_listing_def read_only_def split: option.splits sum.splits)
next
  case (Deactivate_listing i)
  with ex inv show ?thesis
    by (auto simp: on_listing_def write_back_def deactivate_listing_def
        split: option.splits if_splits)
next
  case (Reactivate_listing i)
  with ex inv show ?thesis
    by (auto simp: on_listing_def write_back_def reactivate_listing_def
        split: option.splits if_splits)
next
  case (Update_affiliate_percentage i a)
  with ex inv show ?thesis
    by (auto simp: on_listing_def write_back_def update_affiliate_percentage_def
        split: option.splits if_splits)
qed

lemma commit_keeps_range:
  assumes "\<forall>i l. L i = Some l \<longrightarrow> affiliate_percentage l \<le> MAX_AFFILIATE_PERCENTAGE"
  shows "\<forall>i l. commit L tx i = Some l \<longrightarrow> affiliate_percentage l \<le> MAX_AFFILIATE_PERCENTAGE"
proof (cases "execute L (fst tx) (snd tx)")
  case (Inl e)
  with assms show ?thesis by (simp add: commit_def)
next
  case (Inr L')
  from execute_keeps_range [OF assms Inr] Inr show ?thesis by (simp add: commit_def)
qed

lemma run_keeps_range:
  "\<forall>i l. L i = Some l \<longrightarrow> affiliate_percentage l \<le> MAX_AFFILIATE_PERCENTAGE \<Longrightarrow>
   \<forall>i l. run L txs i = Some l \<longrightarrow> affiliate_percentage l \<le> MAX_AFFILIATE_PERCENTAGE"
proof (induction txs arbitrary: L)
  case Nil
  then show ?case by simp
next
  case (Cons tx txs)
  from Cons.IH [OF commit_keeps_range [OF Cons.prems]] show ?case by simp
qed

text \<open>The code of the three authorization checks is the number of \<open>E_LISTING_NOT_ACTIVE\<close>.\<close>

lemma unauthorized_code: "abort_market 1 = abort_market E_LISTING_NOT_ACTIVE"
  by (simp add: E_LISTING_NOT_ACTIVE_def)

text \<open>
  C2, as stated, fails for the commission update: \<open>update_affiliate_percentage\<close> checks the
  caller before the rate, so a call with a rate above 1000 from an address that is not the
  seller aborts with code 1, not with \<open>E_INVALID_AFFILIATE_PERCENTAGE\<close>.
\<close>

theorem update_by_stranger_counterexample:
  "MAX_AFFILIATE_PERCENTAGE < 1001 \<and>
   update_affiliate_percentage scenario_B 1001 ctx0 = Inl (abort_market 1) \<and>
   update_affiliate_percentage scenario_B 1001 ctx0 \<noteq>
     Inl (abort_market E_INVALID_AFFILIATE_PERCENTAGE)"
  by (simp add: update_affiliate_percentage_def abort_market_def
      E_INVALID_AFFILIATE_PERCENTAGE_def MAX_AFFILIATE_PERCENTAGE_def)

text \<open>
  C2, amended: for every rate above 1000, listing creation aborts with
  \<open>E_INVALID_AFFILIATE_PERCENTAGE\<close>, and the commission update aborts too, with
  \<open>E_INVALID_AFFILIATE_PERCENTAGE\<close> when the seller calls it and with code 1 when anyone else
  does; in each case the ledger is left as it was (no listing created, no field changed).
  Consequently every listing on a ledger reached from the empty one by any transactions has
  a rate of at most 1000.
\<close>

theorem commission_above_max_rejected:
  assumes "MAX_AFFILIATE_PERCENTAGE < a"
  shows "create_listing_with_affiliate p b n d a ctx =
           Inl (abort_market E_INVALID_AFFILIATE_PERCENTAGE) \<and>
         update_affiliate_percentage l a ctx =
           Inl (abort_market (if sender ctx = seller l then E_INVALID_AFFILIATE_PERCENTAGE else 1)) \<and>
         commit L (Create_listing_with_affiliate p b n d a, ctx) = L \<and>
         commit L (Update_affiliate_percentage i a, ctx) = L \<and>
         (\<forall>txs j m. run Map.empty txs j = Some m \<longrightarrow>
            affiliate_percentage m \<le> MAX_AFFILIATE_PERCENTAGE)"
proof -
  have created: "create_listing_with_affiliate p b n d a ctx =
           Inl (abort_market E_INVALID_AFFILIATE_PERCENTAGE)"
    using assms by (simp add: create_listing_with_affiliate_def not_le)
  have updated: "update_affiliate_percentage l' a ctx =
           Inl (abort_market (if sender ctx = seller l' then E_INVALID_AFFILIATE_PERCENTAGE else 1))"
    for l'
    using assms by (simp add: update_affiliate_percentage_def not_le)
  have same: "commit L (Create_listing_with_affiliate p b n d a, ctx) = L"
    by (simp add: commit_def share_object_def created)
  have same': "commit L (Update_affiliate_percentage i a, ctx) = L"
    by (simp add: commit_def on_listing_def write_back_def updated split: option.splits)
  have bound: "\<forall>txs j m. run Map.empty txs j = Some m \<longrightarrow>
            affiliate_percentage m \<le> MAX_AFFILIATE_PERCENTAGE"
    using run_keeps_range [of Map.empty] by simp
  from created updated same same' bound show ?thesis by blast
qed

text \<open>
  The amended C2 at rate 1001: creation and the seller's update of scenario B are rejected,
  the ledger holding scenario B is unchanged, and the listing created with rate 1000 is on the
  ledger with a rate within the bound.
\<close>

theorem commission_above_max_rejected_witness:
  "MAX_AFFILIATE_PERCENTAGE < 1001 \<and>
   create_listing_with_affiliate 5 [1] [2] [3] 1001 seller_ctx =
     Inl (abort_market E_INVALID_AFFILIATE_PERCENTAGE) \<and>
   update_affiliate_percentage scenario_B 1001 seller_ctx =
     Inl (abort_market E_INVALID_AFFILIATE_PERCENTAGE) \<and>
   commit [(0, 0) \<mapsto> scenario_B] (Create_listing_with_affiliate 5 [1] [2] [3] 1001, seller_ctx) =
     [(0, 0) \<mapsto> scenario_B] \<and>
   commit [(0, 0) \<mapsto> scenario_B] (Update_affiliate_percentage (0, 0) 1001, seller_ctx) =
     [(0, 0) \<mapsto> scenario_B] \<and>
   run Map.empty [(Create_listing_with_affiliate 5 [1] [2] [3] 1000, seller_ctx)] (8, 0) =
     Some \<lparr>uid = (8, 0), seller = 2, price = 5, blob_id = [1], name = [2], description = [3],
            is_active = True, affiliate_percentage = 1000\<rparr> \<and>
   affiliate_percentage \<lparr>uid = (8, 0), seller = 2, price = 5, blob_id = [1], name = [2],
     description = [3], is_active = True, affiliate_percentage = 1000\<rparr>
     \<le> MAX_AFFILIATE_PERCENTAGE"
proof -
  have h: "MAX_AFFILIATE_PERCENTAGE < 1001"
    by (simp add: MAX_AFFILIATE_PERCENTAGE_def)
  have on_ledger:
    "run Map.empty [(Create_listing_with_affiliate 5 [1] [2] [3] 1000, seller_ctx)] (8, 0) =
       Some \<lparr>uid = (8, 0), seller = 2, price = 5, blob_id = [1], name = [2], description = [3],
              is_active = True, affiliate_percentage = 1000\<rparr>"
    by (simp add: commit_def share_object_def create_listing_with_affiliate_def object_new_def
        MAX_AFFILIATE_PERCENTAGE_def)
  note rejected = commission_above_max_rejected [OF h, of 5 "[1]" "[2]" "[3]" seller_ctx
      scenario_B "[(0, 0) \<mapsto> scenario_B]" "(0, 0)"]
  from rejected on_ledger have
    "affiliate_percentage \<lparr>uid = (8, 0), seller = 2, price = 5, blob_id = [1], name = [2],
       description = [3], is_active = True, affiliate_percentage = 1000\<rparr>
       \<le> MAX_AFFILIATE_PERCENTAGE"
    by blast
  with h rejected on_ledger show ?thesis by simp
qed

subsection \<open>Purchases that are refused\<close>

text \<open>
  C3: on a listing whose \<open>is_active\<close> is false, \<open>purchase\<close> and \<open>purchase_with_referral\<close> abort
  with \<open>E_LISTING_NOT_ACTIVE\<close>, whatever the payment, the referrer and the sender are, and commit
  no transfer.
\<close>

theorem purchase_inactive_fails:
  assumes "\<not> is_active l"
  shows "purchase l payment ctx = Inl (abort_market E_LISTING_NOT_ACTIVE) \<and>
         purchase_with_referral l payment referrer ctx = Inl (abort_market E_LISTING_NOT_ACTIVE) \<and>
         committed_transfers (purchase l payment ctx) = [] \<and>
         committed_transfers (purchase_with_referral l payment referrer ctx) = []"
  using assms by (simp add: purchase_def purchase_with_referral_def committed_transfers_def)

text \<open>C3 at the deactivated listing, with 1005 units submitted and referrer 3.\<close>

theorem purchase_inactive_fails_witness:
  "\<not> is_active inactive_listing \<and>
   purchase inactive_listing 1005 ctx0 = Inl (abort_market E_LISTING_NOT_ACTIVE) \<and>
   purchase_with_referral inactive_listing 1005 3 ctx0 = Inl (abort_market E_LISTING_NOT_ACTIVE) \<and>
   committed_transfers (purchase inactive_listing 1005 ctx0) = [] \<and>
   committed_transfers (purchase_with_referral inactive_listing 1005 3 ctx0) = []"
proof -
  have h: "\<not> is_active inactive_listing" by simp
  from purchase_inactive_fails [OF h, of 1005 ctx0 3] h show ?thesis by blast
qed

text \<open>
  C4, as stated, fails: the self-referral check comes after the activation and payment
  checks. A buyer who names themself as referrer and submits 50 units for scenario B (price
  999) is refused with \<open>E_INSUFFICIENT_PAYMENT\<close>, which is neither the self-referral code nor
  the other state error.
\<close>

theorem self_referral_underpaid_counterexample:
  "(1::address) = sender ctx0 \<and>
   purchase_with_referral scenario_B 50 1 ctx0 = Inl (abort_market E_INSUFFICIENT_PAYMENT) \<and>
   purchase_with_referral scenario_B 50 1 ctx0 \<noteq> Inl (abort_market E_CANNOT_SELF_REFER) \<and>
   purchase_with_referral scenario_B 50 1 ctx0 \<noteq> Inl (abort_market E_LISTING_NOT_ACTIVE)"
  by (simp add: purchase_with_referral_def coin_value_def abort_market_def
      E_INSUFFICIENT_PAYMENT_def E_CANNOT_SELF_REFER_def E_LISTING_NOT_ACTIVE_def)

text \<open>
  C4, amended: for every listing and every payment, \<open>purchase_with_referral\<close> with a referrer
  equal to the buyer or to the seller always aborts and commits no transfer; the code is
  \<open>E_LISTING_NOT_ACTIVE\<close> when the listing is inactive, else \<open>E_INSUFFICIENT_PAYMENT\<close> when the
  payment is below the price, and \<open>E_CANNOT_SELF_REFER\<close> in every remaining case.
\<close>

theorem self_referral_fails:
  assumes "referrer = sender ctx \<or> referrer = seller l"
  shows "purchase_with_referral l payment referrer ctx =
           Inl (abort_market
             (if \<not> is_active l then E_LISTING_NOT_ACTIVE
              else if coin_value payment < price l then E_INSUFFICIENT_PAYMENT
              else E_CANNOT_SELF_REFER)) \<and>
         committed_transfers (purchase_with_referral l payment referrer ctx) = []"
  using assms
  by (auto simp: purchase_with_referral_def committed_transfers_def not_le Let_def)

text \<open>The amended C4 with the buyer as referrer and with the seller as referrer, on scenario B
  fully paid.\<close>

theorem self_referral_fails_witness:
  "((1::address) = sender ctx0 \<or> 1 = seller scenario_B) \<and>
   purchase_with_referral scenario_B 1005 1 ctx0 = Inl (abort_market E_CANNOT_SELF_REFER) \<and>
   committed_transfers (purchase_with_referral scenario_B 1005 1 ctx0) = [] \<and>
   ((2::address) = sender ctx0 \<or> 2 = seller scenario_B) \<and>
   purchase_with_referral scenario_B 1005 2 ctx0 = Inl (abort_market E_CANNOT_SELF_REFER)"
proof -
  have h: "(1::address) = sender ctx0 \<or> 1 = seller scenario_B" by simp
  have h': "(2::address) = sender ctx0 \<or> 2 = seller scenario_B" by simp
  from self_referral_fails [OF h, of 1005] self_referral_fails [OF h', of 1005] h h'
  show ?thesis
    by (simp add: coin_value_def committed_transfers_def)
qed

subsection \<open>Listing creation\<close>

text \<open>
  C5, as stated, fails: \<open>create_listing_with_affiliate\<close> checks the rate and nothing else.
  Creation with price 0 and an empty \<open>blob_id\<close> succeeds, and the ledger then holds a listing
  with price 0 and an empty locator.
\<close>

theorem create_listing_zero_price_counterexample:
  "create_listing_with_affiliate 0 [] [2] [3] 0 ctx0 =
     Inr (\<lparr>uid = (7, 0), seller = 1, price = 0, blob_id = [],
           name = [2], description = [3], is_active = True, affiliate_percentage = 0\<rparr>,
          \<lparr>sender = 1, tx_hash = 7, ids_created = 1\<rparr>) \<and>
   run Map.empty [(Create_listing 0 [] [2] [3], ctx0)] (7, 0) =
     Some \<lparr>uid = (7, 0), seller = 1, price = 0, blob_id = [],
           name = [2], description = [3], is_active = True, affiliate_percentage = 0\<rparr>"
  by (simp add: create_listing_def create_listing_with_affiliate_def object_new_def
      MAX_AFFILIATE_PERCENTAGE_def commit_def share_object_def)

text \<open>
  C5, amended: listing creation validates the commission rate only. \<open>create_listing\<close> always
  succeeds, and \<open>create_listing_with_affiliate\<close> succeeds whenever the rate is at most 1000,
  for every price (0 included) and every locator (the empty one included); the listing
  created is active, belongs to the sender and stores the price, locator, name and
  description exactly as submitted. So a created listing has \<open>price > 0\<close> and a non-empty
  locator only when the caller submitted them so.
\<close>

theorem create_listing_stores_inputs:
  "create_listing p b n d ctx =
     Inr (\<lparr>uid = (tx_hash ctx, ids_created ctx), seller = sender ctx, price = p, blob_id = b,
           name = n, description = d, is_active = True, affiliate_percentage = 0\<rparr>,
          ctx\<lparr>ids_created := ids_created ctx + 1\<rparr>) \<and>
   (a \<le> MAX_AFFILIATE_PERCENTAGE \<longrightarrow>
    create_listing_with_affiliate p b n d a ctx =
     Inr (\<lparr>uid = (tx_hash ctx, ids_created ctx), seller = sender ctx, price = p, blob_id = b,
           name = n, description = d, is_active = True, affiliate_percentage = a\<rparr>,
          ctx\<lparr>ids_created := ids_created ctx + 1\<rparr>))"
  by (simp add: create_listing_def create_listing_with_affiliate_def object_new_def
      MAX_AFFILIATE_PERCENTAGE_def)

text \<open>The amended C5 at price 5, without a commission and with 500 basis points.\<close>

theorem create_listing_stores_inputs_witness:
  "create_listing 5 [1] [2] [3] ctx0 =
     Inr (\<lparr>uid = (7, 0), seller = 1, price = 5, blob_id = [1],
           name = [2], description = [3], is_active = True, affiliate_percentage = 0\<rparr>,
          \<lparr>sender = 1, tx_hash = 7, ids_created = 1\<rparr>) \<and>
   (500::u64) \<le> MAX_AFFILIATE_PERCENTAGE \<and>
   create_listing_with_affiliate 5 [1] [2] [3] 500 ctx0 =
     Inr (\<lparr>uid = (7, 0), seller = 1, price = 5, blob_id = [1],
           name = [2], description = [3], is_active = True, affiliate_percentage = 500\<rparr>,
          \<lparr>sender = 1, tx_hash = 7, ids_created = 1\<rparr>)"
proof -
  have h: "(500::u64) \<le> MAX_AFFILIATE_PERCENTAGE"
    by (simp add: MAX_AFFILIATE_PERCENTAGE_def)
  from create_listing_stores_inputs [of 5 "[1]" "[2]" "[3]" ctx0 500] h show ?thesis by simp
qed

subsection \<open>The plain purchase\<close>

text \<open>
  C6, as stated, fails in its last part: the event of \<open>purchase\<close> is a \<open>PurchaseEvent\<close>, whose
  fields are \<open>listing_id\<close>, \<open>buyer\<close>, \<open>seller\<close> and \<open>price\<close>. It has no \<open>affiliate_fee\<close>, so no
  event with \<open>affiliate_fee = 0\<close> is emitted.
\<close>

theorem purchase_event_has_no_fee_counterexample:
  "is_active scenario_B \<and> price scenario_B \<le> coin_value 1005 \<and>
   purchase scenario_B 1005 ctx0 =
     Inr \<lparr>transfers = [(1005, 2)], events = [PurchaseEvent (0, 0) 1 2 999]\<rparr> \<and>
   event_affiliate_fee (PurchaseEvent (0, 0) 1 2 999) \<noteq> Some 0"
  by (simp add: purchase_def coin_value_def)

text \<open>
  C6, amended: for every active listing, \<open>purchase\<close> fails with \<open>E_INSUFFICIENT_PAYMENT\<close> exactly
  when the payment's value is below the price; otherwise it transfers the entire submitted
  payment (any excess included) to the seller, to nobody else, and emits one \<open>PurchaseEvent\<close>
  with the listing's identity, the buyer, the seller and the price, an event that has no
  \<open>affiliate_fee\<close> field.
\<close>

theorem purchase_pays_seller:
  assumes "is_active l"
  shows "(purchase l payment ctx = Inl (abort_market E_INSUFFICIENT_PAYMENT)
            \<longleftrightarrow> coin_value payment < price l) \<and>
         (price l \<le> coin_value payment \<longrightarrow>
            purchase l payment ctx =
              Inr \<lparr>transfers = [(payment, seller l)],
                   events = [PurchaseEvent (uid l) (sender ctx) (seller l) (price l)]\<rparr> \<and>
            received (seller l) (committed_transfers (purchase l payment ctx)) = unat payment \<and>
            event_affiliate_fee (PurchaseEvent (uid l) (sender ctx) (seller l) (price l)) = None)"
  using assms by (auto simp: purchase_def committed_transfers_def not_le)

text \<open>The amended C6 at scenario B with 1005 units submitted, 6 above the price.\<close>

theorem purchase_pays_seller_witness:
  "is_active scenario_B \<and>
   (purchase scenario_B 1005 ctx0 = Inl (abort_market E_INSUFFICIENT_PAYMENT)
      \<longleftrightarrow> coin_value 1005 < price scenario_B) \<and>
   price scenario_B \<le> coin_value 1005 \<and>
   purchase scenario_B 1005 ctx0 =
     Inr \<lparr>transfers = [(1005, seller scenario_B)],
          events = [PurchaseEvent (uid scenario_B) (sender ctx0) (seller scenario_B)
                      (price scenario_B)]\<rparr> \<and>
   received (seller scenario_B) (committed_transfers (purchase scenario_B 1005 ctx0))
     = unat (1005::u64)"
proof -
  have h1: "is_active scenario_B" by simp
  have h2: "price scenario_B \<le> coin_value 1005" by (simp add: coin_value_def)
  from purchase_pays_seller [OF h1, of 1005 ctx0] h1 h2 show ?thesis by blast
qed

subsection \<open>What the seller's updates leave alone\<close>

text \<open>
  C10: when the sender is the listing's seller, \<open>deactivate_listing\<close> returns the listing with
  \<open>is_active\<close> set to false and nothing else changed, \<open>reactivate_listing\<close> the listing with
  \<open>is_active\<close> set to true and nothing else changed, and \<open>update_affiliate_percentage\<close> the
  listing with \<open>affiliate_percentage\<close> set to the new rate and nothing else changed (or, for a
  rate above 1000, it aborts and returns no listing). In all three the identity, seller,
  price, \<open>blob_id\<close>, name and description of the result are those of the listing.
\<close>

theorem seller_updates_frame:
  assumes "sender ctx = seller l"
  shows "deactivate_listing l ctx = Inr (l\<lparr>is_active := False\<rparr>) \<and>
         reactivate_listing l ctx = Inr (l\<lparr>is_active := True\<rparr>) \<and>
         update_affiliate_percentage l new_percentage ctx =
           (if new_percentage \<le> MAX_AFFILIATE_PERCENTAGE
            then Inr (l\<lparr>affiliate_percentage := new_percentage\<rparr>)
            else Inl (abort_market E_INVALID_AFFILIATE_PERCENTAGE)) \<and>
         (\<forall>l'. deactivate_listing l ctx = Inr l' \<or> reactivate_listing l ctx = Inr l' \<or>
               update_affiliate_percentage l new_percentage ctx = Inr l' \<longrightarrow>
               uid l' = uid l \<and> seller l' = seller l \<and> price l' = price l \<and>
               blob_id l' = blob_id l \<and> name l' = name l \<and> description l' = description l) \<and>
         (\<forall>l'. deactivate_listing l ctx = Inr l' \<or> reactivate_listing l ctx = Inr l' \<longrightarrow>
               affiliate_percentage l' = affiliate_percentage l) \<and>
         (\<forall>l'. update_affiliate_percentage l new_percentage ctx = Inr l' \<longrightarrow>
               is_active l' = is_active l)"
  using assms
  by (auto simp: deactivate_listing_def reactivate_listing_def update_affiliate_percentage_def
      split: if_splits)

text \<open>C10 at scenario B, called by its seller, with the new rate 500.\<close>

theorem seller_updates_frame_witness:
  "sender seller_ctx = seller scenario_B \<and>
   deactivate_listing scenario_B seller_ctx = Inr inactive_listing \<and>
   reactivate_listing scenario_B seller_ctx = Inr scenario_B \<and>
   update_affiliate_percentage scenario_B 500 seller_ctx =
     Inr \<lparr>uid = (0, 0), seller = 2, price = 999, blob_id = [1], name = [2],
          description = [3], is_active = True, affiliate_percentage = 500\<rparr>"
proof -
  have h: "sender seller_ctx = seller scenario_B" by simp
  from seller_updates_frame [OF h, of 500] h show ?thesis
    by (simp add: MAX_AFFILIATE_PERCENTAGE_def)
qed

section \<open>Properties of the encryption envelope\<close>

subsection \<open>Framing\<close>

lemma createEncryptedPayload_append:
  "createEncryptedPayload encryptedBlob iv = Inr (iv @ encryptedBlob)"
  by (simp add: createEncryptedPayload_def typed_array_set_def)

text \<open>
  C7: for every ciphertext and every \<open>iv\<close> of the fixed size of 12 bytes,
  \<open>createEncryptedPayload\<close> returns the \<open>iv\<close> followed by the ciphertext, and
  \<open>parseEncryptedPayload\<close> of that payload gives back the \<open>iv\<close> and the ciphertext.
\<close>

theorem unframe_frame:
  assumes "length iv = 12"
  shows "\<exists>payload. createEncryptedPayload ciphertext iv = Inr payload \<and>
           payload = iv @ ciphertext \<and>
           parseEncryptedPayload payload = (iv, ciphertext)"
  using assms
  by (simp add: createEncryptedPayload_append parseEncryptedPayload_def slice_def slice_from_def)

text \<open>C7 at a ciphertext of three bytes and the \<open>iv\<close> 1 to 12.\<close>

theorem unframe_frame_witness:
  "length [1, 2, 3, 4, 5, 6, 7, 8, 9, 10, 11, 12 :: u8] = 12 \<and>
   (\<exists>payload. createEncryptedPayload [200, 201, 202] [1, 2, 3, 4, 5, 6, 7, 8, 9, 10, 11, 12]
                 = Inr payload \<and>
      payload = [1, 2, 3, 4, 5, 6, 7, 8, 9, 10, 11, 12] @ [200, 201, 202] \<and>
      parseEncryptedPayload payload = ([1, 2, 3, 4, 5, 6, 7, 8, 9, 10, 11, 12], [200, 201, 202]))"
proof -
  have h: "length [1, 2, 3, 4, 5, 6, 7, 8, 9, 10, 11, 12 :: u8] = 12" by simp
  from unframe_frame [OF h, of "[200, 201, 202]"] h show ?thesis by blast
qed

text \<open>
  The size matters: \<open>createEncryptedPayload\<close> accepts an \<open>iv\<close> of any length, and
  \<open>parseEncryptedPayload\<close> always cuts after 12 bytes, so an \<open>iv\<close> of another length does not
  come back.
\<close>

lemma short_iv_not_recovered:
  "createEncryptedPayload [200, 201, 202] [1, 2] = Inr [1, 2, 200, 201, 202] \<and>
   parseEncryptedPayload [1, 2, 200, 201, 202] = ([1, 2, 200, 201, 202], [])"
  by (simp add: createEncryptedPayload_append parseEncryptedPayload_def slice_def slice_from_def)

subsection \<open>Base64 there and back\<close>

lemma b64_index_char_all:
  "list_all (\<lambda>i. b64_index (b64_char i) = Some i \<and> b64_char i \<noteq> CHR ''='' \<and>
      \<not> ascii_whitespace (b64_char i)) [0..<64]"
  by code_simp

lemma b64_char_facts:
  assumes "i < 64"
  shows "b64_index (b64_char i) = Some i" "b64_char i \<noteq> CHR ''=''"
    "\<not> ascii_whitespace (b64_char i)"
  using b64_index_char_all assms by (simp_all add: list_all_iff)

lemma b64_char_in_alphabet:
  assumes "g < 64"
  shows "b64_char g \<in> set b64_alphabet"
proof -
  have "length b64_alphabet = 64" by (simp add: b64_alphabet_def)
  with assms show ?thesis unfolding b64_char_def by (intro nth_mem) simp
qed

lemma b64_sextets_bound:
  "\<forall>x\<in>set bs. x < 256 \<Longrightarrow> \<forall>g\<in>set (b64_sextets bs). g < 64"
proof (induction bs rule: b64_sextets.induct)
  case (1 a b c rest)
  then have "a < 256" "b < 256" "c < 256" by simp_all
  moreover have "\<forall>g\<in>set (b64_sextets rest). g < 64" using 1 by simp
  ultimately show ?case by (auto simp: less_mult_imp_div_less)
next
  case (2 a b)
  then have "a < 256" "b < 256" by simp_all
  then show ?case by auto
next
  case (3 a)
  then have "a < 256" by simp
  then show ?case by auto
next
  case 4
  then show ?case by simp
qed

lemma b64_bytes_sextets:
  "\<forall>x\<in>set bs. x < 256 \<Longrightarrow> b64_bytes (b64_sextets bs) = bs"
proof (induction bs rule: b64_sextets.induct)
  case (1 a b c rest)
  then have "a < 256" "b < 256" "c < 256" by simp_all
  moreover have "b64_bytes (b64_sextets rest) = rest" using 1 by simp
  ultimately show ?case by simp
next
  case (2 a b)
  then have "a < 256" "b < 256" by simp_all
  then show ?case by simp
next
  case (3 a)
  then show ?case by simp
next
  case 4
  then show ?case by simp
qed

lemma b64_sextets_count: "length (b64_sextets bs) = (4 * length bs + 2) div 3"
  by (induction bs rule: b64_sextets.induct) simp_all

lemma b64_sextets_length:
  "(length (b64_sextets bs) + (3 - length bs mod 3) mod 3) mod 4 = 0 \<and>
   length (b64_sextets bs) mod 4 \<noteq> 1"
proof (induction bs rule: b64_sextets.induct)
  case (1 a b c rest)
  have "length (a # b # c # rest) = length rest + 3"
    by simp
  then have e1: "length (a # b # c # rest) mod 3 = length rest mod 3"
    by (simp only: mod_add_self2)
  have e2: "length (b64_sextets (a # b # c # rest)) = length (b64_sextets rest) + 4"
    by simp
  have step: "(n + 4 + k) mod 4 = (n + k) mod 4" "(n + 4) mod 4 = n mod 4" for n k :: nat
    by presburger+
  show ?case unfolding e1 e2 step using 1 by blast
qed simp_all

lemma drop_padding_body:
  assumes "CHR ''='' \<notin> set body" "k \<le> 2" "length (body @ replicate k (CHR ''='')) mod 4 = 0"
  shows "drop_padding (body @ replicate k (CHR ''='')) = body"
proof -
  consider "k = 0" | "k = 1" | "k = 2" using assms(2) by linarith
  then show ?thesis
  proof cases
    case 1
    show ?thesis
    proof (cases "rev body")
      case Nil
      then show ?thesis using 1 by (simp add: drop_padding_def)
    next
      case (Cons x r)
      then have "x \<in> set body" by (metis list.set_intros(1) set_rev)
      then have "x \<noteq> CHR ''=''" using assms(1) by auto
      then show ?thesis using 1 by (simp add: drop_padding_def Cons split: list.splits)
    qed
  next
    case 2
    show ?thesis
    proof (cases "rev body")
      case Nil
      then show ?thesis using 2 assms(3) by simp
    next
      case (Cons y r)
      then have "y \<in> set body" by (metis list.set_intros(1) set_rev)
      then have ne: "y \<noteq> CHR ''=''" using assms(1) by auto
      have again: "rev r @ [y] = body" using Cons by (metis rev.simps(2) rev_rev_ident)
      show ?thesis using 2 ne assms(3) by (simp add: drop_padding_def Cons again)
    qed
  next
    case 3
    then have "rev (body @ replicate k (CHR ''='')) = CHR ''='' # CHR ''='' # rev body"
      by (simp add: numeral_2_eq_2)
    then show ?thesis using assms(3) by (simp add: drop_padding_def)
  qed
qed

lemma those_b64_index:
  "\<forall>g\<in>set gs. g < 64 \<Longrightarrow> those (map b64_index (map b64_char gs)) = Some gs"
  by (induction gs) (simp_all add: b64_char_facts(1))

lemma of_char_bytes: "\<forall>x\<in>set (map of_char (s::string)). x < (256::nat)"
  by simp

lemma btoa_chars:
  assumes "c \<in> set (btoa s)"
  shows "c = CHR ''='' \<or> (\<exists>g<64. c = b64_char g)"
proof -
  from assms have "c = CHR ''='' \<or> (\<exists>g\<in>set (b64_sextets (map of_char s)). c = b64_char g)"
    by (auto simp: btoa_def)
  with b64_sextets_bound [OF of_char_bytes, of s] show ?thesis by blast
qed

lemma btoa_no_whitespace: "filter (\<lambda>c. \<not> ascii_whitespace c) (btoa s) = btoa s"
proof -
  have "\<not> ascii_whitespace (CHR ''='')"
    by (simp add: ascii_whitespace_def)
  then have "\<forall>c\<in>set (btoa s). \<not> ascii_whitespace c"
    using btoa_chars b64_char_facts(3) by blast
  then show ?thesis by simp
qed

text \<open>\<open>atob\<close> decodes what \<open>btoa\<close> encodes, for every binary string.\<close>

lemma atob_btoa: "atob (btoa s) = Inr s"
proof -
  let ?gs = "b64_sextets (map of_char s)"
  let ?body = "map b64_char ?gs"
  let ?k = "(3 - length s mod 3) mod 3"
  have bound: "\<forall>g\<in>set ?gs. g < 64"
    using b64_sextets_bound [OF of_char_bytes] .
  have no_pad: "CHR ''='' \<notin> set ?body"
  proof
    assume "CHR ''='' \<in> set ?body"
    then obtain g where "g \<in> set ?gs" "b64_char g = CHR ''=''" by auto
    with bound b64_char_facts(2) show False by blast
  qed
  have len: "length (?body @ replicate ?k (CHR ''='')) mod 4 = 0" "length ?body mod 4 \<noteq> 1"
    using b64_sextets_length [of "map of_char s"] by simp_all
  have "?k \<le> 2" by simp
  from drop_padding_body [OF no_pad this len(1)]
  have dropped: "drop_padding (btoa s) = ?body" by (simp add: btoa_def)
  have groups: "those (map b64_index ?body) = Some ?gs"
    using those_b64_index [OF bound] .
  have bytes: "map char_of (b64_bytes ?gs) = s"
    by (simp add: b64_bytes_sextets [OF of_char_bytes] comp_def)
  show ?thesis
    using len(2)
    by (simp add: atob_def btoa_no_whitespace dropped groups bytes del: map_map)
qed

lemma btoa_length_32: "length s = 32 \<Longrightarrow> length (btoa s) = 44"
  by (simp add: btoa_def b64_sextets_count)

lemma charCodes_fromCharCode: "charCodes (fromCharCode bytes) = bytes"
proof -
  have "word_of_nat (of_char (char_of (unat b))) = b" for b :: u8
  proof -
    have "unat b < 256" using unsigned_less [of b, where ?'a = nat] by simp
    then show ?thesis by (simp add: of_char_of)
  qed
  then show ?thesis by (simp add: charCodes_def fromCharCode_def comp_def map_idI)
qed

subsection \<open>Exporting and importing a key\<close>

text \<open>
  C8, as stated, fails for a 256-bit key that is not extractable. \<open>importKeyFromBase64\<close>
  imports with \<open>extractable = false\<close>: the string exported for the key of 32 bytes \<open>0xFF\<close>
  is imported as a key with these 32 bytes that \<open>exportKeyToBase64\<close> refuses with an
  \<open>InvalidAccessError\<close>, so for this key nothing is exported and nothing recovered.
\<close>

theorem imported_key_not_exportable_counterexample:
  "exportKeyToBase64 ff_key = Inr ''//////////////////////////////////////////8='' \<and>
   importKeyFromBase64 ''//////////////////////////////////////////8='' = Inr imported_ff_key \<and>
   length (raw imported_ff_key) = 32 \<and>
   exportKeyToBase64 imported_ff_key = Inl InvalidAccessError"
proof -
  have exported:
    "exportKeyToBase64 ff_key = Inr ''//////////////////////////////////////////8=''"
    by code_simp
  then have encoded:
    "btoa (fromCharCode (replicate 32 255)) = ''//////////////////////////////////////////8=''"
    by (simp add: exportKeyToBase64_def exportKey_raw_def generateEncryptionKey_def)
  have "importKeyFromBase64 (btoa (fromCharCode (replicate 32 255))) = Inr imported_ff_key"
    by (simp add: importKeyFromBase64_def atob_btoa charCodes_fromCharCode importKey_raw_def)
  then have imported:
    "importKeyFromBase64 ''//////////////////////////////////////////8='' = Inr imported_ff_key"
    by (simp only: encoded)
  have refused: "exportKeyToBase64 imported_ff_key = Inl InvalidAccessError"
    by (simp add: exportKeyToBase64_def exportKey_raw_def)
  have "length (raw imported_ff_key) = 32"
    by simp
  with exported imported refused show ?thesis by (intro conjI)
qed

lemma base64_characters_fragment_safe:
  "list_all url_fragment_char (b64_alphabet @ ''='')"
  by code_simp

lemma btoa_fragment_safe: "url_fragment_safe (btoa s)"
proof -
  have "url_fragment_char c" if "c \<in> set (btoa s)" for c
  proof -
    from btoa_chars [OF that] b64_char_in_alphabet
    have "c \<in> set (b64_alphabet @ ''='')" by auto
    with base64_characters_fragment_safe show ?thesis
      by (simp only: list_all_iff)
  qed
  then show ?thesis by (simp add: url_fragment_safe_def list_all_iff)
qed

text \<open>
  C8, amended: for every extractable 256-bit key (as \<open>generateEncryptionKey\<close> makes them),
  \<open>exportKeyToBase64\<close> succeeds, \<open>importKeyFromBase64\<close> of the exported string succeeds with
  a key of exactly the original raw bytes (lossless round trip), and the exported string is
  URL-safe for a fragment: it has 44 characters, each a character of the base64 alphabet or
  \<open>=\<close>, and each may stand as it is in the fragment of a URL.
\<close>

theorem key_roundtrip:
  assumes "extractable key" and "length (raw key) = 32"
  shows "\<exists>s imported. exportKeyToBase64 key = Inr s \<and>
           importKeyFromBase64 s = Inr imported \<and> raw imported = raw key \<and>
           imported = \<lparr>raw = raw key, extractable = False, usages = [Decrypt]\<rparr> \<and>
           url_fragment_safe s \<and>
           length s = 44 \<and> set s \<subseteq> set b64_alphabet \<union> {CHR ''=''}"
proof -
  let ?s = "btoa (fromCharCode (raw key))"
  let ?k = "\<lparr>raw = raw key, extractable = False, usages = [Decrypt]\<rparr>"
  have exported: "exportKeyToBase64 key = Inr ?s"
    using assms(1) by (simp add: exportKeyToBase64_def exportKey_raw_def)
  have imported: "importKeyFromBase64 ?s = Inr ?k"
    using assms(2)
    by (simp add: importKeyFromBase64_def atob_btoa charCodes_fromCharCode importKey_raw_def)
  have same: "raw ?k = raw key"
    by simp
  have safe: "url_fragment_safe ?s"
    by (rule btoa_fragment_safe)
  have "length (fromCharCode (raw key)) = 32"
    using assms(2) by (simp add: fromCharCode_def)
  then have len: "length ?s = 44" by (rule btoa_length_32)
  have chars: "set ?s \<subseteq> set b64_alphabet \<union> {CHR ''=''}"
    using btoa_chars b64_char_in_alphabet by blast
  from exported imported same safe len chars show ?thesis by blast
qed

lemma counting_key_exported:
  "exportKeyToBase64 counting_key = Inr ''AAECAwQFBgcICQoLDA0ODxAREhMUFRYXGBkaGxwdHh8=''"
  by code_simp

text \<open>The amended C8 at the key of the bytes 0 to 31.\<close>

theorem key_roundtrip_witness:
  "extractable counting_key \<and> length (raw counting_key) = 32 \<and>
   exportKeyToBase64 counting_key = Inr ''AAECAwQFBgcICQoLDA0ODxAREhMUFRYXGBkaGxwdHh8='' \<and>
   importKeyFromBase64 ''AAECAwQFBgcICQoLDA0ODxAREhMUFRYXGBkaGxwdHh8='' =
     Inr \<lparr>raw = raw counting_key, extractable = False, usages = [Decrypt]\<rparr> \<and>
   url_fragment_safe ''AAECAwQFBgcICQoLDA0ODxAREhMUFRYXGBkaGxwdHh8='' \<and>
   length ''AAECAwQFBgcICQoLDA0ODxAREhMUFRYXGBkaGxwdHh8='' = 44"
proof -
  have h1: "extractable counting_key" by (simp add: generateEncryptionKey_def)
  have h2: "length (raw counting_key) = 32" by (simp add: generateEncryptionKey_def)
  from key_roundtrip [OF h1 h2] counting_key_exported h1 h2 show ?thesis by auto
qed

section \<open>Properties of the redeem page\<close>

lemma affiliatePercentage_positive:
  "0 < affiliatePercentage_of_field field \<longleftrightarrow> (\<exists>bp. field = Some bp \<and> bp \<noteq> 0)"
  by (cases field) (simp_all add: affiliatePercentage_of_field_def)

text \<open>The referrer read from the link is null or a non-empty string.\<close>

lemma parse_referrer_state: "parse_referrer ref = None \<or> truthy (parse_referrer ref)"
  by (simp add: parse_referrer_def)

text \<open>
  C9: with an account connected, the listing fetched and its object found on the ledger,
  \<open>handlePurchase\<close> submits one call; it is \<open>purchase_with_referral\<close> if and only if a referrer
  is present, differs from the buyer's address, differs from the listing's seller, and the
  listing's commission rate is not zero; in every other case it is \<open>purchase\<close>.
\<close>

theorem redeem_chooses_call:
  "\<exists>call. handlePurchase pkg (Some buyer)
             (Some (listing\<lparr>affiliatePercentage := affiliatePercentage_of_field field\<rparr>))
             referrer (Inr (Some version)) = Submitted call \<and>
     (target call = pkg @ ''::market::purchase_with_referral'' \<longleftrightarrow>
        truthy referrer \<and> referrer \<noteq> Some buyer \<and> referrer \<noteq> Some (info_seller listing) \<and>
        field \<noteq> None \<and> field \<noteq> Some 0) \<and>
     (target call = pkg @ ''::market::purchase'' \<longleftrightarrow>
        \<not> (truthy referrer \<and> referrer \<noteq> Some buyer \<and> referrer \<noteq> Some (info_seller listing) \<and>
           field \<noteq> None \<and> field \<noteq> Some 0))"
proof -
  let ?l = "listing\<lparr>affiliatePercentage := affiliatePercentage_of_field field\<rparr>"
  have valid: "hasValidReferrer referrer buyer ?l \<longleftrightarrow>
      truthy referrer \<and> referrer \<noteq> Some buyer \<and> referrer \<noteq> Some (info_seller listing) \<and>
      field \<noteq> None \<and> field \<noteq> Some 0"
    by (auto simp: hasValidReferrer_def affiliatePercentage_positive)
  show ?thesis
  proof (cases "hasValidReferrer referrer buyer ?l")
    case True
    then have "handlePurchase pkg (Some buyer) (Some ?l) referrer (Inr (Some version)) =
        Submitted \<lparr>target = pkg @ ''::market::purchase_with_referral'',
          arguments = [listing_arg ?l version, PaymentCoin (info_price ?l), Pure referrer]\<rparr>"
      by (simp add: handlePurchase_def)
    with True valid show ?thesis by simp
  next
    case False
    then have "handlePurchase pkg (Some buyer) (Some ?l) referrer (Inr (Some version)) =
        Submitted \<lparr>target = pkg @ ''::market::purchase'',
          arguments = [listing_arg ?l version, PaymentCoin (info_price ?l)]\<rparr>"
      by (simp add: handlePurchase_def)
    with False valid show ?thesis by simp
  qed
qed

text \<open>
  C9 at a listing of seller \<open>0x2\<close> with 500 basis points, buyer \<open>0x1\<close>: referred by \<open>0x3\<close> the
  page calls \<open>purchase_with_referral\<close>, referred by the seller it calls \<open>purchase\<close>.
\<close>

theorem redeem_chooses_call_witness:
  "(\<exists>call. handlePurchase ''0xpkg'' (Some ''0x1'')
             (Some (sample_info\<lparr>affiliatePercentage := affiliatePercentage_of_field (Some 500)\<rparr>))
             (Some ''0x3'') (Inr (Some (Some 5))) = Submitted call \<and>
      target call = ''0xpkg'' @ ''::market::purchase_with_referral'') \<and>
   (\<exists>call. handlePurchase ''0xpkg'' (Some ''0x1'')
             (Some (sample_info\<lparr>affiliatePercentage := affiliatePercentage_of_field (Some 500)\<rparr>))
             (Some ''0x2'') (Inr (Some (Some 5))) = Submitted call \<and>
      target call = ''0xpkg'' @ ''::market::purchase'')"
proof -
  have referred: "truthy (Some ''0x3'') \<and> Some ''0x3'' \<noteq> Some ''0x1'' \<and>
      Some ''0x3'' \<noteq> Some (info_seller sample_info) \<and>
      Some (500::nat) \<noteq> None \<and> Some (500::nat) \<noteq> Some 0"
    by (simp add: truthy_def)
  have by_seller: "\<not> (truthy (Some ''0x2'') \<and> Some ''0x2'' \<noteq> Some ''0x1'' \<and>
      Some ''0x2'' \<noteq> Some (info_seller sample_info) \<and>
      Some (500::nat) \<noteq> None \<and> Some (500::nat) \<noteq> Some 0)"
    by simp
  from redeem_chooses_call [where pkg = "''0xpkg''" and buyer = "''0x1''" and listing = sample_info
      and field = "Some 500" and referrer = "Some ''0x3''" and version = "Some 5"]
    referred
  have first: "\<exists>call. handlePurchase ''0xpkg'' (Some ''0x1'')
             (Some (sample_info\<lparr>affiliatePercentage := affiliatePercentage_of_field (Some 500)\<rparr>))
             (Some ''0x3'') (Inr (Some (Some 5))) = Submitted call \<and>
      target call = ''0xpkg'' @ ''::market::purchase_with_referral''"
    by blast
  from redeem_chooses_call [where pkg = "''0xpkg''" and buyer = "''0x1''" and listing = sample_info
      and field = "Some 500" and referrer = "Some ''0x2''" and version = "Some 5"]
    by_seller
  have second: "\<exists>call. handlePurchase ''0xpkg'' (Some ''0x1'')
             (Some (sample_info\<lparr>affiliatePercentage := affiliatePercentage_of_field (Some 500)\<rparr>))
             (Some ''0x2'') (Inr (Some (Some 5))) = Submitted call \<and>
      target call = ''0xpkg'' @ ''::market::purchase''"
    by blast
  from first second show ?thesis by (rule conjI)
qed

end
